theory Spec2Isabelle
  imports Main "HOL-Library.Multiset"
begin

section \<open>The regular expression of \<open>is_valid_email\<close>\<close>

text \<open>
  \<open>registration.py\<close> validates an address with
  \<^verbatim>\<open>re.match(r"[^@]+@[^@]+\.[^@]+", email) is not None\<close>.
  The pattern is a sequence of items; each item is one character class, taken once or
  one-or-more times (\<open>+\<close>). A class is a literal character (\<open>@\<close>, \<open>\.\<close>) or the
  complement of one character (\<open>[^@]\<close>, which also accepts a newline).
\<close>

datatype cclass = Lit char | Except char

fun accepts :: "cclass \<Rightarrow> char \<Rightarrow> bool" where
  "accepts (Lit c) x = (x = c)"
| "accepts (Except c) x = (x \<noteq> c)"

datatype item = Once cclass | Many1 cclass

text \<open>
  \<open>re.match\<close> anchors the match at the start of the string and not at its end. The
  engine is greedy and backtracks: a \<open>+\<close> item first tries to take one more character,
  and gives characters back when the rest of the pattern fails. The result is the length
  of the matched prefix (the end of Python's match object), or \<open>None\<close>.
\<close>

fun re_match :: "item list \<Rightarrow> string \<Rightarrow> nat option" where
  "re_match [] s = Some 0"
| "re_match (Once c # its) [] = None"
| "re_match (Once c # its) (x # xs) =
     (if accepts c x then map_option Suc (re_match its xs) else None)"
| "re_match (Many1 c # its) [] = None"
| "re_match (Many1 c # its) (x # xs) =
     (if accepts c x
      then (case re_match (Many1 c # its) xs of
              Some n \<Rightarrow> Some (Suc n)
            | None \<Rightarrow> map_option Suc (re_match its xs))
      else None)"

definition email_pattern :: "item list" where
  "email_pattern =
     [Many1 (Except CHR ''@''), Once (Lit CHR ''@''),
      Many1 (Except CHR ''@''), Once (Lit CHR ''.''),
      Many1 (Except CHR ''@'')]"

definition is_valid_email :: "string \<Rightarrow> bool" where
  "is_valid_email mail = (re_match email_pattern mail \<noteq> None)"

text \<open>
  The rule in the words of the specification, for comparison with the code: at least one
  character before \<open>@\<close>, at least one character between \<open>@\<close> and the final \<open>.\<close>, at
  least one character after the final \<open>.\<close>. The \<open>@\<close> is read as the first one of the
  string and the final \<open>.\<close> as the last dot of the text that follows it.
\<close>

definition spec_email_shape :: "string \<Rightarrow> bool" where
  "spec_email_shape mail =
     (let local_part = takeWhile (\<lambda>c. c \<noteq> CHR ''@'') mail;
          after_at = drop 1 (dropWhile (\<lambda>c. c \<noteq> CHR ''@'') mail);
          tld = rev (takeWhile (\<lambda>c. c \<noteq> CHR ''.'') (rev after_at));
          domain = rev (drop 1 (dropWhile (\<lambda>c. c \<noteq> CHR ''.'') (rev after_at)))
      in CHR ''@'' \<in> set mail \<and> local_part \<noteq> [] \<and>
         CHR ''.'' \<in> set after_at \<and> domain \<noteq> [] \<and> tld \<noteq> [])"

section \<open>The store\<close>

text \<open>
  The table \<open>users(username TEXT PRIMARY KEY, email TEXT NOT NULL, password TEXT NOT NULL)\<close>
  holds rows in insertion order. The database file \<open>DB_NAME\<close> either cannot be opened
  (every \<open>sqlite3.connect\<close> raises), or it is a database in which the table is absent
  (\<open>None\<close>, also the state of a file that does not exist yet: \<open>connect\<close> creates it
  empty) or present with its rows.
\<close>

record user_row =
  username :: string
  email :: string
  password :: string

type_synonym users_table = "user_row list"

datatype database = Unopenable | Database "users_table option"

text \<open>
  The state the functions run in: the database file, and a count of the connections
  opened so far, which records whether a call accessed the store at all.
\<close>

record world =
  db :: database
  connects :: nat

text \<open>The two exceptions of \<open>sqlite3\<close> that the statements of this program can raise;
  both are subclasses of \<open>Exception\<close>.\<close>

datatype exn = IntegrityError | OperationalError

type_synonym connection = "users_table option"

definition sqlite3_connect :: "world \<Rightarrow> (exn + connection) \<times> world" where
  "sqlite3_connect w =
     ((case db w of Unopenable \<Rightarrow> Inl OperationalError | Database t \<Rightarrow> Inr t),
      w\<lparr>connects := Suc (connects w)\<rparr>)"

definition commit :: "connection \<Rightarrow> world \<Rightarrow> world" where
  "commit conn w = w\<lparr>db := Database conn\<rparr>"

text \<open>\<^verbatim>\<open>CREATE TABLE IF NOT EXISTS users (...)\<close>\<close>

definition execute_create_table :: "connection \<Rightarrow> exn + connection" where
  "execute_create_table conn =
     (case conn of None \<Rightarrow> Inr (Some []) | Some rows \<Rightarrow> Inr (Some rows))"

text \<open>
  \<^verbatim>\<open>INSERT INTO users (username, email, password) VALUES (?, ?, ?)\<close>: no such table
  is an \<open>OperationalError\<close>, a second row with the same primary key an
  \<open>IntegrityError\<close>.
\<close>

definition execute_insert :: "user_row \<Rightarrow> connection \<Rightarrow> exn + connection" where
  "execute_insert r conn =
     (case conn of
        None \<Rightarrow> Inl OperationalError
      | Some rows \<Rightarrow>
          if username r \<in> set (map username rows) then Inl IntegrityError
          else Inr (Some (rows @ [r])))"

text \<open>\<^verbatim>\<open>SELECT * FROM users WHERE username=? AND password=?\<close>\<close>

definition execute_select_login :: "string \<Rightarrow> string \<Rightarrow> connection \<Rightarrow> exn + user_row list" where
  "execute_select_login uname pwd conn =
     (case conn of
        None \<Rightarrow> Inl OperationalError
      | Some rows \<Rightarrow> Inr (filter (\<lambda>r. username r = uname \<and> password r = pwd) rows))"

text \<open>\<^verbatim>\<open>SELECT username, email FROM users\<close>\<close>

definition execute_select_users :: "connection \<Rightarrow> exn + (string \<times> string) list" where
  "execute_select_users conn =
     (case conn of
        None \<Rightarrow> Inl OperationalError
      | Some rows \<Rightarrow> Inr (map (\<lambda>r. (username r, email r)) rows))"

definition fetchone :: "'a list \<Rightarrow> 'a option" where
  "fetchone rs = (case rs of [] \<Rightarrow> None | r # _ \<Rightarrow> Some r)"

definition fetchall :: "'a list \<Rightarrow> 'a list" where
  "fetchall rs = rs"

section \<open>The four operations\<close>

text \<open>
  Each function takes the world and returns its result, or the exception that escapes
  it, with the world it leaves. A \<open>with sqlite3.connect(...)\<close> block commits when its
  body ends normally and rolls back (keeps the file as it was) when the body raises.
\<close>

definition create_db :: "world \<Rightarrow> (exn + unit) \<times> world" where
  "create_db w =
     (case sqlite3_connect w of
        (Inl ex, w1) \<Rightarrow> (Inl ex, w1)
      | (Inr conn, w1) \<Rightarrow>
          (case execute_create_table conn of
             Inl ex \<Rightarrow> (Inl ex, w1)
           | Inr conn' \<Rightarrow> (Inr (), commit conn' w1)))"

text \<open>The body of the \<open>try\<close> block of \<open>add_user\<close>.\<close>

definition add_user_try :: "world \<Rightarrow> string \<Rightarrow> string \<Rightarrow> string \<Rightarrow> (exn + bool) \<times> world" where
  "add_user_try w uname mail pwd =
     (case sqlite3_connect w of
        (Inl ex, w1) \<Rightarrow> (Inl ex, w1)
      | (Inr conn, w1) \<Rightarrow>
          (case execute_insert \<lparr>username = uname, email = mail, password = pwd\<rparr> conn of
             Inl ex \<Rightarrow> (Inl ex, w1)
           | Inr conn' \<Rightarrow> (Inr True, commit conn' w1)))"

definition add_user :: "world \<Rightarrow> string \<Rightarrow> string \<Rightarrow> string \<Rightarrow> (exn + bool) \<times> world" where
  "add_user w uname mail pwd =
     (if uname = [] \<or> mail = [] \<or> pwd = [] \<or> \<not> is_valid_email mail then (Inr False, w)
      else
        (case add_user_try w uname mail pwd of
           (Inl IntegrityError, w') \<Rightarrow> (Inr False, w')
         | (Inl _, w') \<Rightarrow> (Inr False, w')
         | (Inr b, w') \<Rightarrow> (Inr b, w')))"

definition authenticate_user :: "world \<Rightarrow> string \<Rightarrow> string \<Rightarrow> (exn + bool) \<times> world" where
  "authenticate_user w uname pwd =
     (if uname = [] \<or> pwd = [] then (Inr False, w)
      else
        (case sqlite3_connect w of
           (Inl ex, w1) \<Rightarrow> (Inl ex, w1)
         | (Inr conn, w1) \<Rightarrow>
             (case execute_select_login uname pwd conn of
                Inl ex \<Rightarrow> (Inl ex, w1)
              | Inr rs \<Rightarrow> (Inr (fetchone rs \<noteq> None), commit conn w1))))"

definition display_users :: "world \<Rightarrow> (exn + (string \<times> string) list) \<times> world" where
  "display_users w =
     (case sqlite3_connect w of
        (Inl ex, w1) \<Rightarrow> (Inl ex, w1)
      | (Inr conn, w1) \<Rightarrow>
          (case execute_select_users conn of
             Inl ex \<Rightarrow> (Inl ex, w1)
           | Inr rs \<Rightarrow>
               (let users = fetchall rs
                in (Inr (if users \<noteq> [] then users else []), commit conn w1))))"

text \<open>The rows of the table, none when there is no table to read.\<close>

definition stored_rows :: "world \<Rightarrow> user_row list" where
  "stored_rows w = (case db w of Database (Some rows) \<Rightarrow> rows | _ \<Rightarrow> [])"

section \<open>Properties of the matcher\<close>

lemma re_match_once_iff:
  "re_match (Once c # its) s \<noteq> None \<longleftrightarrow>
     (\<exists>x b. s = x # b \<and> accepts c x \<and> re_match its b \<noteq> None)"
  by (cases s) auto

lemma re_match_many1_iff:
  "re_match (Many1 c # its) s \<noteq> None \<longleftrightarrow>
     (\<exists>a b. s = a @ b \<and> a \<noteq> [] \<and> list_all (accepts c) a \<and> re_match its b \<noteq> None)"
proof (induction s)
  case Nil
  show ?case by simp
next
  case (Cons x xs)
  show ?case
  proof (cases "accepts c x")
    case False
    have "\<not> (\<exists>a b. x # xs = a @ b \<and> a \<noteq> [] \<and> list_all (accepts c) a \<and> re_match its b \<noteq> None)"
    proof
      assume "\<exists>a b. x # xs = a @ b \<and> a \<noteq> [] \<and> list_all (accepts c) a \<and> re_match its b \<noteq> None"
      then obtain a b where ab: "x # xs = a @ b" "a \<noteq> []" "list_all (accepts c) a" by blast
      then obtain a' where "a = x # a'" by (cases a) auto
      with ab(3) False show False by simp
    qed
    with False show ?thesis by simp
  next
    case True
    have step: "re_match (Many1 c # its) (x # xs) \<noteq> None \<longleftrightarrow>
          re_match (Many1 c # its) xs \<noteq> None \<or> re_match its xs \<noteq> None"
      using True by (auto split: option.splits)
    show ?thesis
    proof
      assume "re_match (Many1 c # its) (x # xs) \<noteq> None"
      with step consider "re_match (Many1 c # its) xs \<noteq> None" | "re_match its xs \<noteq> None"
        by blast
      then show "\<exists>a b. x # xs = a @ b \<and> a \<noteq> [] \<and> list_all (accepts c) a \<and> re_match its b \<noteq> None"
      proof cases
        case 1
        with Cons.IH obtain a b where
          "xs = a @ b" "list_all (accepts c) a" "re_match its b \<noteq> None" by blast
        with True have "x # xs = (x # a) @ b \<and> x # a \<noteq> [] \<and> list_all (accepts c) (x # a) \<and> re_match its b \<noteq> None"
          by simp
        then show ?thesis by blast
      next
        case 2
        with True have "x # xs = [x] @ xs \<and> [x] \<noteq> [] \<and> list_all (accepts c) [x] \<and> re_match its xs \<noteq> None"
          by simp
        then show ?thesis by blast
      qed
    next
      assume "\<exists>a b. x # xs = a @ b \<and> a \<noteq> [] \<and> list_all (accepts c) a \<and> re_match its b \<noteq> None"
      then obtain a b where ab: "x # xs = a @ b" "a \<noteq> []" "list_all (accepts c) a" "re_match its b \<noteq> None"
        by blast
      then obtain a' where a: "a = x # a'" by (cases a) auto
      show "re_match (Many1 c # its) (x # xs) \<noteq> None"
      proof (cases "a' = []")
        case True
        with a ab have "re_match its xs \<noteq> None" by simp
        with step show ?thesis by blast
      next
        case False
        with a ab have "xs = a' @ b \<and> a' \<noteq> [] \<and> list_all (accepts c) a' \<and> re_match its b \<noteq> None"
          by simp
        with Cons.IH have "re_match (Many1 c # its) xs \<noteq> None" by blast
        with step show ?thesis by blast
      qed
    qed
  qed
qed

lemma all_except_iff: "list_all (accepts (Except c)) a \<longleftrightarrow> c \<notin> set a"
  by (induction a) auto

section \<open>Properties of the store operations\<close>

lemmas store_defs = sqlite3_connect_def commit_def execute_create_table_def
  execute_insert_def execute_select_login_def execute_select_users_def fetchone_def fetchall_def

lemma add_user_try_unopenable:
  "db w = Unopenable \<Longrightarrow>
   add_user_try w uname mail pwd = (Inl OperationalError, w\<lparr>connects := Suc (connects w)\<rparr>)"
  by (simp add: add_user_try_def store_defs)

lemma add_user_try_no_table:
  "db w = Database None \<Longrightarrow>
   add_user_try w uname mail pwd = (Inl OperationalError, w\<lparr>connects := Suc (connects w)\<rparr>)"
  by (simp add: add_user_try_def store_defs)

lemma add_user_try_duplicate:
  "db w = Database (Some rows) \<Longrightarrow> uname \<in> set (map username rows) \<Longrightarrow>
   add_user_try w uname mail pwd = (Inl IntegrityError, w\<lparr>connects := Suc (connects w)\<rparr>)"
  by (simp add: add_user_try_def store_defs)

lemma add_user_try_fresh:
  "db w = Database (Some rows) \<Longrightarrow> uname \<notin> set (map username rows) \<Longrightarrow>
   add_user_try w uname mail pwd =
     (Inr True, w\<lparr>db := Database (Some (rows @ [\<lparr>username = uname, email = mail, password = pwd\<rparr>])),
                  connects := Suc (connects w)\<rparr>)"
  by (simp add: add_user_try_def store_defs)

lemma add_user_fresh:
  assumes "uname \<noteq> []" "mail \<noteq> []" "pwd \<noteq> []" "is_valid_email mail"
    and "db w = Database (Some rows)" "uname \<notin> set (map username rows)"
  shows "add_user w uname mail pwd =
     (Inr True, w\<lparr>db := Database (Some (rows @ [\<lparr>username = uname, email = mail, password = pwd\<rparr>])),
                  connects := Suc (connects w)\<rparr>)"
  using assms by (simp add: add_user_def add_user_try_fresh)

lemma display_users_table:
  "db w = Database (Some rows) \<Longrightarrow>
   display_users w = (Inr (map (\<lambda>r. (username r, email r)) rows), w\<lparr>connects := Suc (connects w)\<rparr>)"
  by (simp add: display_users_def store_defs)

lemma fetchone_found: "(fetchone rs \<noteq> None) = (rs \<noteq> [])"
  by (cases rs) (simp_all add: fetchone_def)

lemma authenticate_user_table:
  "db w = Database (Some rows) \<Longrightarrow> uname \<noteq> [] \<Longrightarrow> pwd \<noteq> [] \<Longrightarrow>
   authenticate_user w uname pwd =
     (Inr (\<exists>r \<in> set rows. username r = uname \<and> password r = pwd),
      w\<lparr>connects := Suc (connects w)\<rparr>)"
  by (simp add: authenticate_user_def sqlite3_connect_def execute_select_login_def commit_def
      fetchone_found filter_empty_conv del: not_None_eq)

section \<open>Registration\<close>

text \<open>
  Claim C1. When the table already holds a row with the username, \<open>add_user\<close> with a
  non-empty, valid email and a non-empty password returns \<open>False\<close>; the database is
  left as it was, so the listing afterwards is the listing before, with the email of the
  original row.
\<close>

theorem add_user_duplicate:
  assumes "db w = Database (Some rows)" and "uname \<in> set (map username rows)"
    and "mail \<noteq> []" and "pwd \<noteq> []" and "is_valid_email mail"
  shows "fst (add_user w uname mail pwd) = Inr False \<and>
         db (snd (add_user w uname mail pwd)) = db w \<and>
         fst (display_users (snd (add_user w uname mail pwd))) = fst (display_users w)"
proof (cases "uname = []")
  case True
  then show ?thesis by (simp add: add_user_def)
next
  case False
  with assms have "add_user w uname mail pwd = (Inr False, w\<lparr>connects := Suc (connects w)\<rparr>)"
    by (simp add: add_user_def add_user_try_duplicate)
  with assms(1) show ?thesis by (simp add: display_users_table)
qed

theorem add_user_duplicate_witness:
  "db \<lparr>db = Database (Some [\<lparr>username = ''u'', email = ''a@b.co'', password = ''p''\<rparr>]),
       connects = 1\<rparr> =
     Database (Some [\<lparr>username = ''u'', email = ''a@b.co'', password = ''p''\<rparr>]) \<and>
   ''u'' \<in> set (map username [\<lparr>username = ''u'', email = ''a@b.co'', password = ''p''\<rparr>]) \<and>
   ''c@d.co'' \<noteq> [] \<and> ''q'' \<noteq> [] \<and> is_valid_email ''c@d.co'' \<and>
   fst (add_user
         \<lparr>db = Database (Some [\<lparr>username = ''u'', email = ''a@b.co'', password = ''p''\<rparr>]),
          connects = 1\<rparr> ''u'' ''c@d.co'' ''q'') = Inr False \<and>
   fst (display_users (snd (add_user
         \<lparr>db = Database (Some [\<lparr>username = ''u'', email = ''a@b.co'', password = ''p''\<rparr>]),
          connects = 1\<rparr> ''u'' ''c@d.co'' ''q''))) = Inr [(''u'', ''a@b.co'')]"
  using add_user_duplicate
    [of "\<lparr>db = Database (Some [\<lparr>username = ''u'', email = ''a@b.co'', password = ''p''\<rparr>]),
          connects = 1\<rparr>"
        "[\<lparr>username = ''u'', email = ''a@b.co'', password = ''p''\<rparr>]"
        "''u''" "''c@d.co''" "''q''"]
  by (simp add: is_valid_email_def email_pattern_def display_users_table)

text \<open>
  Claim C2. On a store with the table, a non-empty username that no row has, a non-empty
  valid email and a non-empty password make \<open>add_user\<close> return \<open>True\<close>, and the table
  afterwards is the old one with the new row. Hence two registrations of distinct users
  into the empty table are followed by a listing of exactly their two pairs, whatever
  the order.
\<close>

theorem add_user_success:
  "(uname \<noteq> [] \<and> mail \<noteq> [] \<and> pwd \<noteq> [] \<and> is_valid_email mail \<and>
    db w = Database (Some rows) \<and> uname \<notin> set (map username rows) \<longrightarrow>
      fst (add_user w uname mail pwd) = Inr True \<and>
      db (snd (add_user w uname mail pwd)) =
        Database (Some (rows @ [\<lparr>username = uname, email = mail, password = pwd\<rparr>]))) \<and>
   (u1 \<noteq> [] \<and> e1 \<noteq> [] \<and> p1 \<noteq> [] \<and> is_valid_email e1 \<and>
    u2 \<noteq> [] \<and> e2 \<noteq> [] \<and> p2 \<noteq> [] \<and> is_valid_email e2 \<and> u1 \<noteq> u2 \<and>
    db w = Database (Some []) \<longrightarrow>
      (\<exists>l. fst (display_users (snd (add_user (snd (add_user w u1 e1 p1)) u2 e2 p2))) = Inr l \<and>
           mset l = {#(u1, e1), (u2, e2)#}))"
proof (intro conjI impI)
  assume a: "uname \<noteq> [] \<and> mail \<noteq> [] \<and> pwd \<noteq> [] \<and> is_valid_email mail \<and>
    db w = Database (Some rows) \<and> uname \<notin> set (map username rows)"
  then have "add_user w uname mail pwd =
     (Inr True, w\<lparr>db := Database (Some (rows @ [\<lparr>username = uname, email = mail, password = pwd\<rparr>])),
                  connects := Suc (connects w)\<rparr>)"
    by (intro add_user_fresh) simp_all
  then show "fst (add_user w uname mail pwd) = Inr True"
    and "db (snd (add_user w uname mail pwd)) =
        Database (Some (rows @ [\<lparr>username = uname, email = mail, password = pwd\<rparr>]))"
    by simp_all
next
  assume a: "u1 \<noteq> [] \<and> e1 \<noteq> [] \<and> p1 \<noteq> [] \<and> is_valid_email e1 \<and>
    u2 \<noteq> [] \<and> e2 \<noteq> [] \<and> p2 \<noteq> [] \<and> is_valid_email e2 \<and> u1 \<noteq> u2 \<and>
    db w = Database (Some [])"
  define w1 where "w1 = snd (add_user w u1 e1 p1)"
  define w2 where "w2 = snd (add_user w1 u2 e2 p2)"
  from a have "add_user w u1 e1 p1 =
     (Inr True, w\<lparr>db := Database (Some ([] @ [\<lparr>username = u1, email = e1, password = p1\<rparr>])),
                  connects := Suc (connects w)\<rparr>)"
    by (intro add_user_fresh) simp_all
  then have d1: "db w1 = Database (Some [\<lparr>username = u1, email = e1, password = p1\<rparr>])"
    by (simp add: w1_def)
  from a have "u2 \<notin> set (map username [\<lparr>username = u1, email = e1, password = p1\<rparr>])"
    by auto
  with a d1 have "add_user w1 u2 e2 p2 =
     (Inr True, w1\<lparr>db := Database (Some ([\<lparr>username = u1, email = e1, password = p1\<rparr>] @
                        [\<lparr>username = u2, email = e2, password = p2\<rparr>])),
                  connects := Suc (connects w1)\<rparr>)"
    by (intro add_user_fresh) simp_all
  then have d2: "db w2 = Database (Some [\<lparr>username = u1, email = e1, password = p1\<rparr>,
       \<lparr>username = u2, email = e2, password = p2\<rparr>])"
    by (simp add: w2_def)
  have "fst (display_users w2) = Inr [(u1, e1), (u2, e2)]"
    by (simp add: display_users_table [OF d2])
  then show "\<exists>l. fst (display_users (snd (add_user (snd (add_user w u1 e1 p1)) u2 e2 p2))) = Inr l \<and>
           mset l = {#(u1, e1), (u2, e2)#}"
    by (simp add: w1_def w2_def)
qed

theorem add_user_success_witness:
  "fst (add_user \<lparr>db = Database (Some []), connects = 0\<rparr> ''u1'' ''u1@x.co'' ''p1'') = Inr True \<and>
   db (snd (add_user \<lparr>db = Database (Some []), connects = 0\<rparr> ''u1'' ''u1@x.co'' ''p1'')) =
     Database (Some [\<lparr>username = ''u1'', email = ''u1@x.co'', password = ''p1''\<rparr>]) \<and>
   (\<exists>l. fst (display_users (snd (add_user (snd (add_user \<lparr>db = Database (Some []), connects = 0\<rparr>
             ''u1'' ''u1@x.co'' ''p1'')) ''u2'' ''u2@x.co'' ''p2''))) = Inr l \<and>
        mset l = {#(''u1'', ''u1@x.co''), (''u2'', ''u2@x.co'')#})"
  using add_user_success
    [where uname = "''u1''" and mail = "''u1@x.co''" and pwd = "''p1''" and rows = "[]"
       and w = "\<lparr>db = Database (Some []), connects = 0\<rparr>"
       and ?u1.0 = "''u1''" and ?e1.0 = "''u1@x.co''" and ?p1.0 = "''p1''"
       and ?u2.0 = "''u2''" and ?e2.0 = "''u2@x.co''" and ?p2.0 = "''p2''"]
  by (simp add: is_valid_email_def email_pattern_def)

text \<open>
  Claim C3. An empty username, an empty email, an empty password or an email that the
  pattern rejects makes \<open>add_user\<close> return \<open>False\<close> with the world exactly as before:
  the same database and not one connection opened.
\<close>

theorem add_user_rejects_invalid:
  "uname = [] \<or> mail = [] \<or> pwd = [] \<or> \<not> is_valid_email mail \<Longrightarrow>
   add_user w uname mail pwd = (Inr False, w)"
  by (simp add: add_user_def)

theorem add_user_rejects_invalid_witness:
  "\<not> is_valid_email ''not-an-email'' \<and>
   add_user \<lparr>db = Database (Some []), connects = 0\<rparr> [] ''a@b.co'' ''p'' = (Inr False, \<lparr>db = Database (Some []), connects = 0\<rparr>) \<and>
   add_user \<lparr>db = Database (Some []), connects = 0\<rparr> ''u'' [] ''p'' = (Inr False, \<lparr>db = Database (Some []), connects = 0\<rparr>) \<and>
   add_user \<lparr>db = Database (Some []), connects = 0\<rparr> ''u'' ''a@b.co'' [] = (Inr False, \<lparr>db = Database (Some []), connects = 0\<rparr>) \<and>
   add_user \<lparr>db = Database (Some []), connects = 0\<rparr> ''u'' ''not-an-email'' ''p'' = (Inr False, \<lparr>db = Database (Some []), connects = 0\<rparr>)"
  using add_user_rejects_invalid [of "[]" "''a@b.co''" "''p''" "\<lparr>db = Database (Some []), connects = 0\<rparr>"]
    add_user_rejects_invalid [of "''u''" "[]" "''p''" "\<lparr>db = Database (Some []), connects = 0\<rparr>"]
    add_user_rejects_invalid [of "''u''" "''a@b.co''" "[]" "\<lparr>db = Database (Some []), connects = 0\<rparr>"]
    add_user_rejects_invalid [of "''u''" "''not-an-email''" "''p''" "\<lparr>db = Database (Some []), connects = 0\<rparr>"]
  by (simp add: is_valid_email_def email_pattern_def)

text \<open>
  Claim C6. \<open>add_user\<close> always returns a boolean, in every state of the store (the file
  cannot be opened, the table is absent, the username is taken) and for all strings: no
  exception escapes. It returns \<open>True\<close> exactly when the inputs pass validation and the
  table exists without a row of that username; every failure is \<open>False\<close>.
\<close>

theorem add_user_never_raises:
  "(\<exists>b. fst (add_user w uname mail pwd) = Inr b) \<and>
   fst (add_user w uname mail pwd) =
     Inr (uname \<noteq> [] \<and> mail \<noteq> [] \<and> pwd \<noteq> [] \<and> is_valid_email mail \<and>
          (\<exists>rows. db w = Database (Some rows) \<and> uname \<notin> set (map username rows)))"
  by (auto simp: add_user_def add_user_try_def store_defs
      split: database.splits option.splits)

theorem add_user_never_raises_witness:
  "is_valid_email ''a@b.co'' \<and>
   fst (add_user \<lparr>db = Unopenable, connects = 0\<rparr> ''u'' ''a@b.co'' ''p'') = Inr False \<and>
   fst (add_user \<lparr>db = Database None, connects = 0\<rparr> ''u'' ''a@b.co'' ''p'') = Inr False"
  using add_user_never_raises [of "\<lparr>db = Unopenable, connects = 0\<rparr>" "''u''" "''a@b.co''" "''p''"]
    add_user_never_raises [of "\<lparr>db = Database None, connects = 0\<rparr>" "''u''" "''a@b.co''" "''p''"]
  by (simp add: is_valid_email_def email_pattern_def)

section \<open>Authentication\<close>

text \<open>
  Claim C4. For a non-empty username and a non-empty password, in every state,
  \<open>authenticate_user\<close> returns \<open>True\<close> if and only if some stored row has exactly that
  username and that password; where the table exists its result is that boolean. With an
  empty username or an empty password it returns \<open>False\<close> and leaves the world as it
  was, no connection opened.
\<close>

theorem authenticate_user_iff:
  "(uname \<noteq> [] \<and> pwd \<noteq> [] \<longrightarrow>
      (fst (authenticate_user w uname pwd) = Inr True \<longleftrightarrow>
       (\<exists>r \<in> set (stored_rows w). username r = uname \<and> password r = pwd))) \<and>
   (uname \<noteq> [] \<and> pwd \<noteq> [] \<and> db w = Database (Some rows) \<longrightarrow>
      fst (authenticate_user w uname pwd) =
        Inr (\<exists>r \<in> set rows. username r = uname \<and> password r = pwd)) \<and>
   (uname = [] \<or> pwd = [] \<longrightarrow> authenticate_user w uname pwd = (Inr False, w))"
proof (intro conjI impI)
  assume ne: "uname \<noteq> [] \<and> pwd \<noteq> []"
  show "fst (authenticate_user w uname pwd) = Inr True \<longleftrightarrow>
       (\<exists>r \<in> set (stored_rows w). username r = uname \<and> password r = pwd)"
  proof (cases "db w")
    case Unopenable
    with ne show ?thesis
      by (simp add: authenticate_user_def stored_rows_def sqlite3_connect_def)
  next
    case (Database t)
    show ?thesis
    proof (cases t)
      case None
      with Database ne show ?thesis
        by (simp add: authenticate_user_def stored_rows_def sqlite3_connect_def
            execute_select_login_def)
    next
      case (Some rs)
      with Database ne show ?thesis
        by (simp add: authenticate_user_table stored_rows_def)
    qed
  qed
next
  assume "uname \<noteq> [] \<and> pwd \<noteq> [] \<and> db w = Database (Some rows)"
  then show "fst (authenticate_user w uname pwd) =
        Inr (\<exists>r \<in> set rows. username r = uname \<and> password r = pwd)"
    by (simp add: authenticate_user_table)
next
  assume "uname = [] \<or> pwd = []"
  then show "authenticate_user w uname pwd = (Inr False, w)"
    by (simp add: authenticate_user_def)
qed

theorem authenticate_user_iff_witness:
  "fst (authenticate_user
         \<lparr>db = Database (Some [\<lparr>username = ''a'', email = ''a@x.co'', password = ''pw''\<rparr>]),
          connects = 0\<rparr> ''a'' ''pw'') = Inr True \<and>
   fst (authenticate_user
         \<lparr>db = Database (Some [\<lparr>username = ''a'', email = ''a@x.co'', password = ''pw''\<rparr>]),
          connects = 0\<rparr> ''a'' ''wrong'') = Inr False \<and>
   authenticate_user \<lparr>db = Database (Some []), connects = 0\<rparr> [] [] = (Inr False, \<lparr>db = Database (Some []), connects = 0\<rparr>)"
  using authenticate_user_iff
    [of "''a''" "''pw''"
        "\<lparr>db = Database (Some [\<lparr>username = ''a'', email = ''a@x.co'', password = ''pw''\<rparr>]),
          connects = 0\<rparr>"
        "[\<lparr>username = ''a'', email = ''a@x.co'', password = ''pw''\<rparr>]"]
    authenticate_user_iff
    [of "''a''" "''wrong''"
        "\<lparr>db = Database (Some [\<lparr>username = ''a'', email = ''a@x.co'', password = ''pw''\<rparr>]),
          connects = 0\<rparr>"
        "[\<lparr>username = ''a'', email = ''a@x.co'', password = ''pw''\<rparr>]"]
    authenticate_user_iff [of "[]" "[]" "\<lparr>db = Database (Some []), connects = 0\<rparr>" "[]"]
  by (simp add: stored_rows_def)

text \<open>
  Claim C7. The claim is that \<open>authenticate_user\<close> never raises and reports a missing
  table as \<open>False\<close>. The function has no handler around its query, unlike \<open>add_user\<close>:
  on a database without the \<open>users\<close> table, with a non-empty username and password,
  the \<open>OperationalError\<close> of the \<open>SELECT\<close> escapes to the caller.
\<close>

theorem authenticate_user_raises_without_table:
  "fst (authenticate_user \<lparr>db = Database None, connects = 0\<rparr> ''u'' ''p'') = Inl OperationalError"
  by (simp add: authenticate_user_def store_defs)

section \<open>Listing\<close>

text \<open>
  Claim C8. On a store with the table, \<open>display_users\<close> returns one
  \<open>(username, email)\<close> pair per stored row and nothing of the passwords, and leaves the
  database as it was; on the table without rows the result is the empty list.
\<close>

theorem display_users_rows:
  "(db w = Database (Some rows) \<longrightarrow>
      fst (display_users w) = Inr (map (\<lambda>r. (username r, email r)) rows) \<and>
      db (snd (display_users w)) = db w) \<and>
   (db w = Database (Some []) \<longrightarrow> fst (display_users w) = Inr [])"
  by (simp add: display_users_table)

theorem display_users_rows_witness:
  "fst (display_users
         \<lparr>db = Database (Some [\<lparr>username = ''u1'', email = ''u1@x.co'', password = ''p1''\<rparr>,
                                \<lparr>username = ''u2'', email = ''u2@x.co'', password = ''p2''\<rparr>]),
          connects = 0\<rparr>) = Inr [(''u1'', ''u1@x.co''), (''u2'', ''u2@x.co'')] \<and>
   fst (display_users \<lparr>db = Database (Some []), connects = 0\<rparr>) = Inr []"
  using display_users_rows
    [of "\<lparr>db = Database (Some [\<lparr>username = ''u1'', email = ''u1@x.co'', password = ''p1''\<rparr>,
                                \<lparr>username = ''u2'', email = ''u2@x.co'', password = ''p2''\<rparr>]),
          connects = 0\<rparr>"
        "[\<lparr>username = ''u1'', email = ''u1@x.co'', password = ''p1''\<rparr>,
          \<lparr>username = ''u2'', email = ''u2@x.co'', password = ''p2''\<rparr>]"]
    display_users_rows [of "\<lparr>db = Database (Some []), connects = 0\<rparr>" "[]"]
  by simp

section \<open>Initialisation\<close>

text \<open>
  Claim C9. \<open>create_db\<close> succeeds on a database whether or not the table exists: an
  absent table is created empty, an existing table keeps every row. A second call
  returns what the first returned and leaves the database of the first.
\<close>

theorem create_db_idempotent:
  "(db w = Database t \<longrightarrow>
      fst (create_db w) = Inr () \<and>
      db (snd (create_db w)) = Database (Some (case t of None \<Rightarrow> [] | Some rows \<Rightarrow> rows))) \<and>
   (db w = Database (Some rows) \<longrightarrow> db (snd (create_db w)) = Database (Some rows)) \<and>
   fst (create_db (snd (create_db w))) = fst (create_db w) \<and>
   db (snd (create_db (snd (create_db w)))) = db (snd (create_db w))"
  by (auto simp: create_db_def store_defs split: database.splits option.splits)

theorem create_db_idempotent_witness:
  "fst (create_db \<lparr>db = Database None, connects = 0\<rparr>) = Inr () \<and>
   db (snd (create_db \<lparr>db = Database None, connects = 0\<rparr>)) = Database (Some []) \<and>
   db (snd (create_db
         \<lparr>db = Database (Some [\<lparr>username = ''u'', email = ''a@b.co'', password = ''p''\<rparr>]),
          connects = 0\<rparr>)) =
     Database (Some [\<lparr>username = ''u'', email = ''a@b.co'', password = ''p''\<rparr>]) \<and>
   db (snd (create_db (snd (create_db \<lparr>db = Database None, connects = 0\<rparr>)))) =
     Database (Some [])"
  using create_db_idempotent [of "\<lparr>db = Database None, connects = 0\<rparr>" "None" "[]"]
    create_db_idempotent
    [of "\<lparr>db = Database (Some [\<lparr>username = ''u'', email = ''a@b.co'', password = ''p''\<rparr>]),
          connects = 0\<rparr>"
        "Some [\<lparr>username = ''u'', email = ''a@b.co'', password = ''p''\<rparr>]"
        "[\<lparr>username = ''u'', email = ''a@b.co'', password = ''p''\<rparr>]"]
  by simp

section \<open>The store without its table\<close>

text \<open>
  Claim C10. When the table does not exist, \<open>add_user\<close> with valid inputs returns
  \<open>False\<close> (its handler swallows the error of the \<open>INSERT\<close>), whereas
  \<open>authenticate_user\<close> with non-empty inputs and \<open>display_users\<close> let the
  \<open>OperationalError\<close> of their \<open>SELECT\<close> escape.
\<close>

theorem uninitialized_store_asymmetry:
  "db w = Database None \<Longrightarrow>
     (uname \<noteq> [] \<and> mail \<noteq> [] \<and> pwd \<noteq> [] \<and> is_valid_email mail \<longrightarrow>
        fst (add_user w uname mail pwd) = Inr False) \<and>
     (uname \<noteq> [] \<and> pwd \<noteq> [] \<longrightarrow> fst (authenticate_user w uname pwd) = Inl OperationalError) \<and>
     fst (display_users w) = Inl OperationalError"
  by (simp add: add_user_def add_user_try_no_table authenticate_user_def display_users_def store_defs)

theorem uninitialized_store_asymmetry_witness:
  "db \<lparr>db = Database None, connects = 0\<rparr> = Database None \<and>
   is_valid_email ''a@b.co'' \<and>
   fst (add_user \<lparr>db = Database None, connects = 0\<rparr> ''u'' ''a@b.co'' ''p'') = Inr False \<and>
   fst (authenticate_user \<lparr>db = Database None, connects = 0\<rparr> ''u'' ''p'') =
     Inl OperationalError \<and>
   fst (display_users \<lparr>db = Database None, connects = 0\<rparr>) = Inl OperationalError"
  using uninitialized_store_asymmetry
    [of "\<lparr>db = Database None, connects = 0\<rparr>" "''u''" "''a@b.co''" "''p''"]
  by (simp add: is_valid_email_def email_pattern_def)

section \<open>Email validation\<close>

text \<open>
  Claim C5, as stated: \<open>is_valid_email\<close> holds exactly for the strings with a character
  before \<open>@\<close>, a character between \<open>@\<close> and the final \<open>.\<close>, and a character after
  the final \<open>.\<close>. The string \<open>a@b.c.\<close> has a single \<open>@\<close> and ends with its final
  dot, so nothing follows that dot; the pattern accepts it all the same, with \<open>c.\<close> as
  the last group.
\<close>

theorem is_valid_email_final_dot_counterexample:
  "is_valid_email ''a@b.c.'' \<and> \<not> spec_email_shape ''a@b.c.''"
  by (simp add: is_valid_email_def email_pattern_def spec_email_shape_def)

text \<open>In the other direction a second \<open>@\<close> before the dot is rejected by the pattern.\<close>

lemma is_valid_email_second_at:
  "\<not> is_valid_email ''a@b@c.d'' \<and> spec_email_shape ''a@b@c.d''"
  by (simp add: is_valid_email_def email_pattern_def spec_email_shape_def)

text \<open>
  Claim C5, amended: \<open>is_valid_email\<close> holds exactly for the strings that begin with
  \<open>a@b.c\<close>, where \<open>a\<close>, \<open>b\<close> and \<open>c\<close> are non-empty and free of \<open>@\<close>; \<open>b\<close> and
  \<open>c\<close> may contain dots, and any text may follow.
\<close>

theorem is_valid_email_iff:
  "is_valid_email mail \<longleftrightarrow>
     (\<exists>a b c rest. mail = a @ ''@'' @ b @ ''.'' @ c @ rest \<and>
        a \<noteq> [] \<and> b \<noteq> [] \<and> c \<noteq> [] \<and>
        CHR ''@'' \<notin> set a \<and> CHR ''@'' \<notin> set b \<and> CHR ''@'' \<notin> set c)"
  unfolding is_valid_email_def email_pattern_def re_match_many1_iff re_match_once_iff
    all_except_iff
  by (simp del: not_None_eq) blast

theorem is_valid_email_iff_witness:
  "is_valid_email ''a@b.co'' \<and> \<not> is_valid_email ''a@b''"
proof -
  have "''a@b.co'' = ''a'' @ ''@'' @ ''b'' @ ''.'' @ ''co'' @ [] \<and>
        ''a'' \<noteq> [] \<and> ''b'' \<noteq> [] \<and> ''co'' \<noteq> [] \<and>
        CHR ''@'' \<notin> set ''a'' \<and> CHR ''@'' \<notin> set ''b'' \<and> CHR ''@'' \<notin> set ''co''"
    by simp
  then have yes: "is_valid_email ''a@b.co''"
    unfolding is_valid_email_iff [of "''a@b.co''"] by blast
  have no: "\<not> is_valid_email ''a@b''"
  proof
    assume "is_valid_email ''a@b''"
    then obtain a b c rest where
      "''a@b'' = a @ ''@'' @ b @ ''.'' @ c @ rest"
      unfolding is_valid_email_iff [of "''a@b''"] by blast
    then have "CHR ''.'' \<in> set ''a@b''"
      by (metis in_set_conv_decomp append_Cons append_Nil append_assoc)
    then show False by simp
  qed
  from yes no show ?thesis by blast
qed

end
